theory Spec2Isabelle
  imports Complex_Main
begin

section \<open>Conventions of the embedding\<close>

text \<open>
  The routes of the repository are TypeScript request handlers over a hosted key-value
  store. Each handler is embedded as a function from its inputs and the part of the store
  it touches to its HTTP response and the new store.

  \<^item> A JavaScript \<open>number\<close> is embedded as an exact \<open>real\<close>; \<open>NaN\<close>, where the
    code can produce it, is \<open>None\<close> of a \<open>real option\<close>. IEEE rounding, overflow and
    infinities are not modelled.
  \<^item> An ISO timestamp string is embedded as the \<open>int\<close> it parses to (milliseconds since
    the epoch); \<open>Date.now()\<close> and \<open>new Date()\<close> are parameters \<open>now\<close>.
  \<^item> \<open>crypto.randomUUID()\<close> is a parameter \<open>newId\<close>.
  \<^item> An optional property is an \<open>option\<close>; \<open>undefined\<close> is \<open>None\<close>.
  \<^item> The key-value store is the external collaborator: \<open>kv.get\<close> returns what the last
    \<open>kv.set\<close> under that key stored, and neither throws.
  \<^item> Functions of the runtime or of modules outside the sources at hand
    (\<open>parseFloat\<close>, \<open>JSON.parse\<close>, \<open>verifyWebhookSignature\<close>, \<open>isPaymentSuccessful\<close>,
    the outcome of \<open>fetch\<close>) are parameters of the handlers that call them.
\<close>

record response =
  http_status :: nat
  success :: bool
  message :: "string option"

definition json_ok :: response where
  "json_ok = \<lparr>http_status = 200, success = True, message = None\<rparr>"

section \<open>Deposit ledger: \<open>lib/pending-deposits\<close>\<close>

datatype deposit_status = Pending | Sent | Confirmed | Credited | Failed | Expired

record PendingDeposit =
  id_d :: string
  paymentId :: string
  walletAddress :: "string option"
  amountUsd :: real
  amountCrypto :: "string option"
  currency :: string
  depositAddress :: "string option"
  cryptomusUrl :: "string option"
  transactionSignature :: "string option"
  status :: deposit_status
  createdAt :: int
  sentAt :: "int option"
  confirmedAt :: "int option"
  creditedAt :: "int option"
  cardCreated :: "bool option"
  cardId :: "string option"
  error :: "string option"

text \<open>
  \<open>Partial<PendingDeposit>\<close>: an object literal is the list of its properties, in the
  order they are written. Spreading it over a record assigns each in turn.
\<close>

datatype deposit_field =
    F_id string
  | F_paymentId string
  | F_walletAddress "string option"
  | F_amountUsd real
  | F_amountCrypto "string option"
  | F_currency string
  | F_depositAddress "string option"
  | F_cryptomusUrl "string option"
  | F_transactionSignature "string option"
  | F_status deposit_status
  | F_createdAt int
  | F_sentAt "int option"
  | F_confirmedAt "int option"
  | F_creditedAt "int option"
  | F_cardCreated "bool option"
  | F_cardId "string option"
  | F_error "string option"

fun assign :: "PendingDeposit \<Rightarrow> deposit_field \<Rightarrow> PendingDeposit" where
  "assign d (F_id v) = d\<lparr>id_d := v\<rparr>"
| "assign d (F_paymentId v) = d\<lparr>paymentId := v\<rparr>"
| "assign d (F_walletAddress v) = d\<lparr>walletAddress := v\<rparr>"
| "assign d (F_amountUsd v) = d\<lparr>amountUsd := v\<rparr>"
| "assign d (F_amountCrypto v) = d\<lparr>amountCrypto := v\<rparr>"
| "assign d (F_currency v) = d\<lparr>currency := v\<rparr>"
| "assign d (F_depositAddress v) = d\<lparr>depositAddress := v\<rparr>"
| "assign d (F_cryptomusUrl v) = d\<lparr>cryptomusUrl := v\<rparr>"
| "assign d (F_transactionSignature v) = d\<lparr>transactionSignature := v\<rparr>"
| "assign d (F_status v) = d\<lparr>status := v\<rparr>"
| "assign d (F_createdAt v) = d\<lparr>createdAt := v\<rparr>"
| "assign d (F_sentAt v) = d\<lparr>sentAt := v\<rparr>"
| "assign d (F_confirmedAt v) = d\<lparr>confirmedAt := v\<rparr>"
| "assign d (F_creditedAt v) = d\<lparr>creditedAt := v\<rparr>"
| "assign d (F_cardCreated v) = d\<lparr>cardCreated := v\<rparr>"
| "assign d (F_cardId v) = d\<lparr>cardId := v\<rparr>"
| "assign d (F_error v) = d\<lparr>error := v\<rparr>"

definition spread :: "PendingDeposit \<Rightarrow> deposit_field list \<Rightarrow> PendingDeposit" where
  "spread d fs = foldl assign d fs"

text \<open>The value under the key \<open>pending_deposits\<close>: absent, or the list last saved.\<close>

type_synonym deposit_store = "PendingDeposit list option"

definition loadPendingDeposits :: "deposit_store \<Rightarrow> PendingDeposit list" where
  "loadPendingDeposits kv = (case kv of None \<Rightarrow> [] | Some deposits \<Rightarrow> deposits)"

definition savePendingDeposits :: "PendingDeposit list \<Rightarrow> deposit_store \<Rightarrow> deposit_store" where
  "savePendingDeposits deposits kv = Some deposits"

text \<open>\<open>Array.prototype.findIndex\<close>; the source's \<open>-1\<close> is \<open>None\<close>.\<close>

fun findIndex :: "('a \<Rightarrow> bool) \<Rightarrow> 'a list \<Rightarrow> nat option" where
  "findIndex P [] = None"
| "findIndex P (x # xs) = (if P x then Some 0 else map_option Suc (findIndex P xs))"

text \<open>
  The argument of \<open>addPendingDeposit\<close> is a deposit without \<open>id\<close>, \<open>createdAt\<close> and
  \<open>status\<close>: whatever those fields of the argument hold is overwritten.
\<close>

definition addPendingDeposit ::
  "string \<Rightarrow> int \<Rightarrow> PendingDeposit \<Rightarrow> deposit_store \<Rightarrow> PendingDeposit \<times> deposit_store" where
  "addPendingDeposit newId now deposit kv =
     (let deposits = loadPendingDeposits kv;
          newDeposit = deposit\<lparr>id_d := newId, createdAt := now, status := Pending\<rparr>
      in (newDeposit, savePendingDeposits (deposits @ [newDeposit]) kv))"

definition updateDepositStatus ::
  "string \<Rightarrow> deposit_status \<Rightarrow> deposit_field list \<Rightarrow> deposit_store
    \<Rightarrow> PendingDeposit option \<times> deposit_store" where
  "updateDepositStatus pid st additionalData kv =
     (let deposits = loadPendingDeposits kv in
      case findIndex (\<lambda>d. paymentId d = pid) deposits of
        Some index \<Rightarrow>
          (let updated = (spread (deposits ! index) additionalData)\<lparr>status := st\<rparr>
           in (Some updated, savePendingDeposits (deposits[index := updated]) kv))
      | None \<Rightarrow> (None, kv))"

definition getDepositByPaymentId :: "string \<Rightarrow> deposit_store \<Rightarrow> PendingDeposit option" where
  "getDepositByPaymentId pid kv = find (\<lambda>d. paymentId d = pid) (loadPendingDeposits kv)"

definition markDepositAsSent ::
  "string \<Rightarrow> string \<Rightarrow> int \<Rightarrow> deposit_store \<Rightarrow> PendingDeposit option \<times> deposit_store" where
  "markDepositAsSent pid sig now kv =
     updateDepositStatus pid Sent [F_transactionSignature (Some sig), F_sentAt (Some now)] kv"

definition markDepositAsConfirmed ::
  "string \<Rightarrow> int \<Rightarrow> deposit_store \<Rightarrow> PendingDeposit option \<times> deposit_store" where
  "markDepositAsConfirmed pid now kv =
     updateDepositStatus pid Confirmed [F_confirmedAt (Some now)] kv"

definition markDepositAsCredited ::
  "string \<Rightarrow> bool \<Rightarrow> string option \<Rightarrow> int \<Rightarrow> deposit_store
    \<Rightarrow> PendingDeposit option \<times> deposit_store" where
  "markDepositAsCredited pid created cid now kv =
     updateDepositStatus pid Credited
       [F_creditedAt (Some now), F_cardCreated (Some created), F_cardId cid] kv"

definition markDepositAsFailed ::
  "string \<Rightarrow> string \<Rightarrow> deposit_store \<Rightarrow> PendingDeposit option \<times> deposit_store" where
  "markDepositAsFailed pid err kv = updateDepositStatus pid Failed [F_error (Some err)] kv"

definition SEVEN_DAYS :: int where
  "SEVEN_DAYS = 7 * 24 * 60 * 60 * 1000"

text \<open>
  The loop of \<open>cleanupExpiredDeposits\<close>: it walks the list, sets the status of a stale
  record in place and counts.
\<close>

fun expire_loop :: "int \<Rightarrow> PendingDeposit list \<Rightarrow> nat \<Rightarrow> PendingDeposit list \<times> nat" where
  "expire_loop now [] expiredCount = ([], expiredCount)"
| "expire_loop now (deposit # rest) expiredCount =
     (if status deposit = Pending \<or> status deposit = Sent then
        (let age = now - createdAt deposit in
         if age > SEVEN_DAYS then
           (case expire_loop now rest (expiredCount + 1) of
              (rest', n) \<Rightarrow> (deposit\<lparr>status := Expired\<rparr> # rest', n))
         else
           (case expire_loop now rest expiredCount of
              (rest', n) \<Rightarrow> (deposit # rest', n)))
      else
        (case expire_loop now rest expiredCount of
           (rest', n) \<Rightarrow> (deposit # rest', n)))"

definition cleanupExpiredDeposits :: "int \<Rightarrow> deposit_store \<Rightarrow> nat \<times> deposit_store" where
  "cleanupExpiredDeposits now kv =
     (case expire_loop now (loadPendingDeposits kv) 0 of
        (deposits, expiredCount) \<Rightarrow>
          (expiredCount, if expiredCount > 0 then savePendingDeposits deposits kv else kv))"



section \<open>Card-provider webhook: \<open>api/kripicard/webhook/route.ts\<close>\<close>

text \<open>
  The processor's payload. Both receivers read it; the properties that are only logged
  (\<open>type\<close>, \<open>amount\<close>, \<open>merchant_amount\<close>, \<open>commission\<close>, \<open>from\<close>,
  \<open>wallet_address_uuid\<close>, \<open>network\<close>, \<open>payer_currency\<close>, \<open>txid\<close>) are left out.
\<close>

record CryptomusWebhook =
  uuid :: string
  order_id :: string
  payment_amount :: string
  payment_amount_usd :: string
  is_final :: bool
  status_p :: string
  currency_p :: string
  additional_data :: string
  sign :: string

text \<open>
  What \<open>fetch\<close> of the card-creation endpoint and \<open>cardResponse.json()\<close> give: one of
  them throws, or the reply is an object with a \<open>success\<close> flag and a \<open>cardId\<close>.
\<close>

datatype card_call = Call_threw | Call_result bool "string option"

definition server_error :: response where
  "server_error = \<lparr>http_status = 500, success = False, message = None\<rparr>"

text \<open>
  The object literal handed to \<open>addPendingDeposit\<close> by the webhook; \<open>id\<close>,
  \<open>createdAt\<close> and \<open>status\<close> are not part of it and are set by \<open>addPendingDeposit\<close>.
\<close>

definition webhook_deposit :: "(string \<Rightarrow> real option) \<Rightarrow> CryptomusWebhook \<Rightarrow> PendingDeposit" where
  "webhook_deposit parseFloat webhookData =
     \<lparr>id_d = [], paymentId = uuid webhookData, walletAddress = None,
      amountUsd = (case parseFloat (payment_amount_usd webhookData) of None \<Rightarrow> 0 | Some v \<Rightarrow> v),
      amountCrypto = Some (payment_amount webhookData @ '' '' @ currency_p webhookData),
      currency = currency_p webhookData, depositAddress = None, cryptomusUrl = None,
      transactionSignature = None, status = Pending, createdAt = 0, sentAt = None,
      confirmedAt = None, creditedAt = None, cardCreated = None, cardId = None,
      error = None\<rparr>"

text \<open>
  \<open>POST\<close>. \<open>request\<close> is \<open>None\<close> when the body is not JSON (the outer \<open>catch\<close>).
  \<open>t_add\<close>, \<open>t_conf\<close> and \<open>t_cred\<close> are the clock readings of the three
  \<open>new Date()\<close> calls on the path.
\<close>

definition kripicard_webhook_POST ::
  "(string \<Rightarrow> real option) \<Rightarrow> string \<Rightarrow> int \<Rightarrow> int \<Rightarrow> int \<Rightarrow> card_call
    \<Rightarrow> CryptomusWebhook option \<Rightarrow> deposit_store \<Rightarrow> response \<times> deposit_store" where
  "kripicard_webhook_POST parseFloat newId t_add t_conf t_cred cardCall request kv =
     (case request of
        None \<Rightarrow> (server_error, kv)
      | Some webhookData \<Rightarrow>
          (let pid = uuid webhookData;
               st = status_p webhookData;
               (deposit, kv1) =
                 (case getDepositByPaymentId pid kv of
                    Some d \<Rightarrow> (d, kv)
                  | None \<Rightarrow> addPendingDeposit newId t_add (webhook_deposit parseFloat webhookData) kv);
               kv' =
                 (if st = ''paid'' \<or> st = ''paid_over'' \<or> st = ''confirm_check'' then
                    (let kv2 = snd (markDepositAsConfirmed pid t_conf kv1) in
                     if cardCreated deposit \<noteq> Some True then
                       (case cardCall of
                          Call_result ok cid \<Rightarrow>
                            if ok then snd (markDepositAsCredited pid True cid t_cred kv2)
                            else snd (markDepositAsCredited pid False None t_cred kv2)
                        | Call_threw \<Rightarrow> snd (markDepositAsCredited pid False None t_cred kv2))
                     else kv2)
                  else if st = ''cancel'' \<or> st = ''fail'' \<or> st = ''wrong_amount'' then
                    snd (markDepositAsFailed pid (''Payment '' @ st) kv1)
                  else kv1)
           in (\<lparr>http_status = 200, success = True, message = Some ''Webhook processed''\<rparr>, kv')))"



section \<open>Payment webhook: \<open>api/deposit/webhook/route.ts\<close>\<close>

record WebhookDeposit =
  orderId :: string
  walletAddress_w :: string
  amount :: "real option"
  status_w :: string
  paymentId_w :: string
  paidAt :: "int option"

text \<open>The keys \<open>webhook_deposit:<orderId>\<close>, by their order id.\<close>

type_synonym webhook_store = "string \<rightharpoonup> WebhookDeposit"

definition saveWebhookDeposit :: "string \<Rightarrow> WebhookDeposit \<Rightarrow> webhook_store \<Rightarrow> webhook_store" where
  "saveWebhookDeposit oid deposit kv = kv(oid \<mapsto> deposit)"

text \<open>Arithmetic of numbers that may be \<open>NaN\<close>: \<open>NaN\<close> is absorbing.\<close>

definition js_mul :: "real option \<Rightarrow> real option \<Rightarrow> real option" where
  "js_mul a b = (case a of None \<Rightarrow> None | Some x \<Rightarrow> map_option (\<lambda>y. x * y) b)"

definition js_add :: "real option \<Rightarrow> real option \<Rightarrow> real option" where
  "js_add a b = (case a of None \<Rightarrow> None | Some x \<Rightarrow> map_option (\<lambda>y. x + y) b)"

definition js_sub :: "real option \<Rightarrow> real option \<Rightarrow> real option" where
  "js_sub a b = (case a of None \<Rightarrow> None | Some x \<Rightarrow> map_option (\<lambda>y. x - y) b)"

definition unauthorized :: response where
  "unauthorized = \<lparr>http_status = 401, success = False, message = Some ''Invalid signature''\<rparr>"

text \<open>
  \<open>POST\<close>. \<open>verifyWebhookSignature\<close> and \<open>isPaymentSuccessful\<close> belong to
  \<open>lib/cryptomus\<close>; the first receives the body without its \<open>sign\<close> property (here:
  with \<open>sign\<close> emptied) and the signature. \<open>jsonWallet s\<close> is the \<open>wallet\<close> property
  of \<open>JSON.parse(s)\<close>, \<open>None\<close> when parsing throws or the property is falsy.
\<close>

definition deposit_webhook_POST ::
  "(CryptomusWebhook \<Rightarrow> string \<Rightarrow> bool) \<Rightarrow> (string \<Rightarrow> bool) \<Rightarrow> (string \<Rightarrow> real option)
    \<Rightarrow> (string \<Rightarrow> string option) \<Rightarrow> int \<Rightarrow> CryptomusWebhook option \<Rightarrow> webhook_store
    \<Rightarrow> response \<times> webhook_store" where
  "deposit_webhook_POST verifyWebhookSignature isPaymentSuccessful parseFloat jsonWallet now
       request kv =
     (case request of
        None \<Rightarrow> (server_error, kv)
      | Some body \<Rightarrow>
          (let signature = sign body;
               bodyWithoutSign = body\<lparr>sign := []\<rparr>
           in if \<not> verifyWebhookSignature bodyWithoutSign signature then (unauthorized, kv)
              else
                (let wallet =
                       (if additional_data body \<noteq> [] then
                          (case jsonWallet (additional_data body) of
                             Some w \<Rightarrow> w
                           | None \<Rightarrow> [])
                        else [])
                 in if isPaymentSuccessful (status_p body) then
                      (let totalPaid = parseFloat (payment_amount_usd body);
                           fee = js_add (js_mul totalPaid (Some 0.02)) (Some 5);
                           creditAmount = js_sub totalPaid fee
                       in (json_ok,
                           saveWebhookDeposit (order_id body)
                             \<lparr>orderId = order_id body, walletAddress_w = wallet,
                              amount = creditAmount, status_w = ''paid'',
                              paymentId_w = uuid body, paidAt = Some now\<rparr> kv))
                    else if is_final body then
                      (json_ok,
                       saveWebhookDeposit (order_id body)
                         \<lparr>orderId = order_id body, walletAddress_w = wallet,
                          amount = Some 0, status_w = status_p body,
                          paymentId_w = uuid body, paidAt = None\<rparr> kv)
                    else (json_ok, kv))))"

section \<open>Card store: \<open>api/cards/store/route.ts\<close>\<close>

datatype card_status = Active | Frozen | Inactive

record StoredCard =
  id_c :: string
  cardId_c :: string
  walletAddress_c :: string
  createdAt_c :: int
  lastFour :: "string option"
  status_c :: card_status
  balance_c :: "real option"
  cardNumber :: "string option"
  cvv :: "string option"
  expiry :: "string option"
  cardHolder :: "string option"

text \<open>The body of \<open>POST\<close>, destructured: a property that is not supplied is \<open>None\<close>.\<close>

record CardRequest =
  rq_cardId :: "string option"
  rq_walletAddress :: "string option"
  rq_lastFour :: "string option"
  rq_balance :: "real option"
  rq_cardNumber :: "string option"
  rq_cvv :: "string option"
  rq_expiry :: "string option"
  rq_cardHolder :: "string option"

type_synonym card_store = "string \<rightharpoonup> StoredCard list"

definition getCards :: "string \<Rightarrow> card_store \<Rightarrow> StoredCard list" where
  "getCards wallet kv = (case kv wallet of None \<Rightarrow> [] | Some cards \<Rightarrow> cards)"

definition saveCards :: "string \<Rightarrow> StoredCard list \<Rightarrow> card_store \<Rightarrow> card_store" where
  "saveCards wallet cards kv = kv(wallet \<mapsto> cards)"

text \<open>\<open>!s\<close> for a string that may be missing.\<close>

definition falsy :: "string option \<Rightarrow> bool" where
  "falsy s = (case s of None \<Rightarrow> True | Some v \<Rightarrow> v = [])"

definition bad_request :: "string \<Rightarrow> response" where
  "bad_request msg = \<lparr>http_status = 400, success = False, message = Some msg\<rparr>"

definition cards_POST ::
  "string \<Rightarrow> int \<Rightarrow> CardRequest option \<Rightarrow> card_store \<Rightarrow> response \<times> card_store" where
  "cards_POST newId now request kv =
     (case request of
        None \<Rightarrow> (server_error\<lparr>message := Some ''Failed to store card''\<rparr>, kv)
      | Some body \<Rightarrow>
          if falsy (rq_cardId body) \<or> falsy (rq_walletAddress body) then
            (bad_request ''cardId and walletAddress are required'', kv)
          else
            (let cid = the (rq_cardId body);
                 wallet = the (rq_walletAddress body);
                 userCards = getCards wallet kv;
                 userCards' =
                   (case findIndex (\<lambda>c. cardId_c c = cid) userCards of
                      Some existingIndex \<Rightarrow>
                        userCards[existingIndex :=
                          (userCards ! existingIndex)
                            \<lparr>lastFour := rq_lastFour body, balance_c := rq_balance body,
                             cardNumber := rq_cardNumber body, cvv := rq_cvv body,
                             expiry := rq_expiry body, cardHolder := rq_cardHolder body\<rparr>]
                    | None \<Rightarrow>
                        userCards @
                          [\<lparr>id_c = newId, cardId_c = cid, walletAddress_c = wallet,
                            createdAt_c = now, lastFour = rq_lastFour body, status_c = Active,
                            balance_c = rq_balance body, cardNumber = rq_cardNumber body,
                            cvv = rq_cvv body, expiry = rq_expiry body,
                            cardHolder = rq_cardHolder body\<rparr>])
             in (json_ok\<lparr>message := Some ''Card stored successfully''\<rparr>,
                 saveCards wallet userCards' kv)))"

section \<open>Balance store: the balance route\<close>

record UserBalance =
  balance :: real
  totalDeposited :: real
  totalSpent :: real
  lastUpdated :: int

type_synonym balance_store = "string \<rightharpoonup> UserBalance"

definition getBalance :: "int \<Rightarrow> string \<Rightarrow> balance_store \<Rightarrow> UserBalance" where
  "getBalance now wallet kv =
     (case kv wallet of
        None \<Rightarrow> \<lparr>balance = 0, totalDeposited = 0, totalSpent = 0, lastUpdated = now\<rparr>
      | Some b \<Rightarrow> b)"

definition saveBalance :: "string \<Rightarrow> UserBalance \<Rightarrow> balance_store \<Rightarrow> balance_store" where
  "saveBalance wallet b kv = kv(wallet \<mapsto> b)"

text \<open>
  The body of \<open>POST\<close>: \<open>rq_amount\<close> is \<open>None\<close> when \<open>typeof amount\<close> is not
  \<open>'number'\<close>.
\<close>

record BalanceRequest =
  rq_wallet :: "string option"
  rq_action :: "string option"
  rq_amount :: "real option"

text \<open>The reply carries the updated record as \<open>data\<close> when the update went through.\<close>

definition balance_POST ::
  "int \<Rightarrow> BalanceRequest option \<Rightarrow> balance_store
    \<Rightarrow> (response \<times> UserBalance option) \<times> balance_store" where
  \<open>balance_POST now request kv =
     (case request of
        None \<Rightarrow> ((server_error, None), kv)
      | Some body \<Rightarrow>
          if falsy (rq_wallet body) \<or> falsy (rq_action body) \<or> rq_amount body = None then
            ((bad_request ''Invalid request parameters'', None), kv)
          else
            (let wallet = the (rq_wallet body);
                 action = the (rq_action body);
                 amt = the (rq_amount body);
                 current = getBalance now wallet kv
             in if action = ''credit'' then
                  (let current' =
                         current\<lparr>balance := balance current + amt,
                                 totalDeposited := totalDeposited current + amt,
                                 lastUpdated := now\<rparr>
                   in ((json_ok, Some current'), saveBalance wallet current' kv))
                else if action = ''debit'' then
                  (if balance current < amt then
                     ((bad_request ''Insufficient balance'', None), kv)
                   else
                     (let current' =
                            current\<lparr>balance := balance current - amt,
                                    totalSpent := totalSpent current + amt,
                                    lastUpdated := now\<rparr>
                      in ((json_ok, Some current'), saveBalance wallet current' kv)))
                else
                  ((bad_request ''Invalid action. Use "credit" or "debit"'', None), kv)))\<close>

text \<open>A body of \<open>POST\<close> with all three properties present.\<close>

definition balance_request :: "string \<Rightarrow> string \<Rightarrow> real \<Rightarrow> BalanceRequest option" where
  "balance_request wallet action amt =
     Some \<lparr>rq_wallet = Some wallet, rq_action = Some action, rq_amount = Some amt\<rparr>"

section \<open>Sample data\<close>

text \<open>Concrete records for the instances evaluated below.\<close>

definition sample_deposit :: "string \<Rightarrow> deposit_status \<Rightarrow> int \<Rightarrow> PendingDeposit" where
  "sample_deposit pid st created =
     \<lparr>id_d = ''id-'' @ pid, paymentId = pid, walletAddress = None, amountUsd = 100,
      amountCrypto = None, currency = ''SOL'', depositAddress = None, cryptomusUrl = None,
      transactionSignature = None, status = st, createdAt = created, sentAt = None,
      confirmedAt = None, creditedAt = None, cardCreated = None, cardId = None,
      error = None\<rparr>"

definition sample_webhook :: "string \<Rightarrow> string \<Rightarrow> string \<Rightarrow> CryptomusWebhook" where
  "sample_webhook pid st sg =
     \<lparr>uuid = pid, order_id = ''order-1'', payment_amount = ''0.5'',
      payment_amount_usd = ''100'', is_final = True, status_p = st, currency_p = ''SOL'',
      additional_data = [], sign = sg\<rparr>"

definition sample_card :: "string \<Rightarrow> StoredCard" where
  "sample_card cid =
     \<lparr>id_c = ''id-'' @ cid, cardId_c = cid, walletAddress_c = ''w1'', createdAt_c = 0,
      lastFour = Some ''4242'', status_c = Frozen, balance_c = Some 10,
      cardNumber = Some ''4000000000004242'', cvv = Some ''123'', expiry = Some ''12/30'',
      cardHolder = Some ''A HOLDER''\<rparr>"

definition balance_only_request :: "string \<Rightarrow> real \<Rightarrow> CardRequest" where
  "balance_only_request cid b =
     \<lparr>rq_cardId = Some cid, rq_walletAddress = Some ''w1'', rq_lastFour = None,
      rq_balance = Some b, rq_cardNumber = None, rq_cvv = None, rq_expiry = None,
      rq_cardHolder = None\<rparr>"

section \<open>Lemmas about the ledger\<close>


lemma findIndex_Some:
  "findIndex P xs = Some i \<Longrightarrow> i < length xs \<and> P (xs ! i) \<and> (\<forall>j<i. \<not> P (xs ! j))"
proof (induction xs arbitrary: i)
  case Nil
  then show ?case by simp
next
  case (Cons x xs)
  show ?case
  proof (cases "P x")
    case True
    with Cons.prems show ?thesis by simp
  next
    case False
    with Cons.prems obtain k where k: "findIndex P xs = Some k" "i = Suc k"
      by auto
    from Cons.IH[OF k(1)] False k(2) show ?thesis
      by (auto simp: less_Suc_eq_0_disj)
  qed
qed


lemma expire_loop_eq:
  "expire_loop now ds n =
     (map (\<lambda>d. if (status d = Pending \<or> status d = Sent) \<and> now - createdAt d > 604800000
                then d\<lparr>status := Expired\<rparr> else d) ds,
      n + length (filter (\<lambda>d. (status d = Pending \<or> status d = Sent)
                               \<and> now - createdAt d > 604800000) ds))"
  by (induction ds arbitrary: n) (auto simp: SEVEN_DAYS_def Let_def)

lemma loadPendingDeposits_simps [simp]:
  "loadPendingDeposits None = []" "loadPendingDeposits (Some ds) = ds"
  by (simp_all add: loadPendingDeposits_def)



lemma paymentId_assign: "(\<forall>v. f \<noteq> F_paymentId v) \<Longrightarrow> paymentId (assign d f) = paymentId d"
  by (cases f) simp_all

lemma paymentId_spread:
  "(\<forall>v. F_paymentId v \<notin> set fs) \<Longrightarrow> paymentId (spread d fs) = paymentId d"
  unfolding spread_def
proof (induction fs arbitrary: d)
  case Nil
  then show ?case by simp
next
  case (Cons f fs)
  from Cons.prems have "\<forall>v. f \<noteq> F_paymentId v" and "\<forall>v. F_paymentId v \<notin> set fs"
    by auto
  with Cons.IH[of "assign d f"] show ?case
    by (simp add: paymentId_assign)
qed

lemma updateDepositStatus_found:
  assumes "findIndex (\<lambda>d. paymentId d = pid) (loadPendingDeposits kv) = Some i"
  shows "updateDepositStatus pid st extra kv =
           (Some ((spread (loadPendingDeposits kv ! i) extra)\<lparr>status := st\<rparr>),
            Some ((loadPendingDeposits kv)
                    [i := (spread (loadPendingDeposits kv ! i) extra)\<lparr>status := st\<rparr>]))"
  using assms by (simp add: updateDepositStatus_def savePendingDeposits_def Let_def)

lemma updateDepositStatus_statuses:
  "map status (loadPendingDeposits (snd (updateDepositStatus pid st extra kv))) =
     (case findIndex (\<lambda>d. paymentId d = pid) (loadPendingDeposits kv) of
        None \<Rightarrow> map status (loadPendingDeposits kv)
      | Some i \<Rightarrow> (map status (loadPendingDeposits kv))[i := st])"
proof (cases "findIndex (\<lambda>d. paymentId d = pid) (loadPendingDeposits kv)")
  case None
  then show ?thesis by (simp add: updateDepositStatus_def)
next
  case (Some i)
  then show ?thesis
    by (simp add: updateDepositStatus_found map_update)
qed

lemma cleanupExpiredDeposits_statuses:
  "map status (loadPendingDeposits (snd (cleanupExpiredDeposits now kv))) =
     map (\<lambda>d. if (status d = Pending \<or> status d = Sent) \<and> now - createdAt d > 604800000
               then Expired else status d) (loadPendingDeposits kv)"
proof (cases "filter (\<lambda>d. (status d = Pending \<or> status d = Sent)
                 \<and> now - createdAt d > 604800000) (loadPendingDeposits kv) = []")
  case True
  then have "\<forall>d\<in>set (loadPendingDeposits kv).
      \<not> ((status d = Pending \<or> status d = Sent) \<and> now - createdAt d > 604800000)"
    by (simp add: filter_empty_conv)
  then have "map (\<lambda>d. if (status d = Pending \<or> status d = Sent) \<and> now - createdAt d > 604800000
               then Expired else status d) (loadPendingDeposits kv) =
             map status (loadPendingDeposits kv)"
    by (intro map_cong) auto
  with True show ?thesis
    by (simp add: cleanupExpiredDeposits_def expire_loop_eq)
next
  case False
  then show ?thesis
    by (simp add: cleanupExpiredDeposits_def expire_loop_eq savePendingDeposits_def comp_def
        if_distrib [of status] cong: if_cong)
qed

lemma updateDepositStatus_paymentIds:
  assumes "\<forall>v. F_paymentId v \<notin> set extra"
  shows "map paymentId (loadPendingDeposits (snd (updateDepositStatus pid st extra kv))) =
         map paymentId (loadPendingDeposits kv)"
proof (cases "findIndex (\<lambda>d. paymentId d = pid) (loadPendingDeposits kv)")
  case None
  then show ?thesis by (simp add: updateDepositStatus_def)
next
  case (Some i)
  from findIndex_Some[OF Some] have "i < length (loadPendingDeposits kv)"
    by simp
  then have "(map paymentId (loadPendingDeposits kv))[i := paymentId (loadPendingDeposits kv ! i)]
      = map paymentId (loadPendingDeposits kv)"
    by (simp add: list_update_same_conv)
  with Some assms show ?thesis
    by (simp add: updateDepositStatus_found map_update paymentId_spread)
qed


lemma getDepositByPaymentId_None:
  "getDepositByPaymentId pid kv = None \<longleftrightarrow> pid \<notin> set (map paymentId (loadPendingDeposits kv))"
  by (auto simp: getDepositByPaymentId_def find_None_iff)

lemma addPendingDeposit_load:
  "loadPendingDeposits (snd (addPendingDeposit newId now deposit kv)) =
     loadPendingDeposits kv @ [deposit\<lparr>id_d := newId, createdAt := now, status := Pending\<rparr>]"
  "fst (addPendingDeposit newId now deposit kv) =
     deposit\<lparr>id_d := newId, createdAt := now, status := Pending\<rparr>"
  by (simp_all add: addPendingDeposit_def savePendingDeposits_def Let_def)

lemma find_snoc:
  "find P (xs @ [y]) = (case find P xs of None \<Rightarrow> (if P y then Some y else None) | Some x \<Rightarrow> Some x)"
  by (induction xs) auto

lemma addPendingDeposit_get:
  assumes "getDepositByPaymentId (paymentId deposit) kv = None"
  shows "getDepositByPaymentId (paymentId deposit) (snd (addPendingDeposit newId now deposit kv)) =
         Some (deposit\<lparr>id_d := newId, createdAt := now, status := Pending\<rparr>)"
  using assms
  by (simp add: getDepositByPaymentId_def addPendingDeposit_load find_snoc)

text \<open>The deposit the webhook works on, and the store it is left in before the status update.\<close>

lemma webhook_lookup:
  fixes w kv newId t_add parseFloat
  defines "r \<equiv> (case getDepositByPaymentId (uuid w) kv of
        Some d \<Rightarrow> (d, kv)
      | None \<Rightarrow> addPendingDeposit newId t_add (webhook_deposit parseFloat w) kv)"
  shows "getDepositByPaymentId (uuid w) (snd r) = Some (fst r)"
    and "getDepositByPaymentId (uuid w) kv = None \<Longrightarrow> cardCreated (fst r) = None"
    and "getDepositByPaymentId (uuid w) kv = Some d \<Longrightarrow> fst r = d"
    and "map paymentId (loadPendingDeposits (snd r)) =
       (if uuid w \<in> set (map paymentId (loadPendingDeposits kv))
        then map paymentId (loadPendingDeposits kv)
        else map paymentId (loadPendingDeposits kv) @ [uuid w])"
proof -
  have pid: "paymentId (webhook_deposit parseFloat w) = uuid w"
    by (simp add: webhook_deposit_def)
  show "getDepositByPaymentId (uuid w) (snd r) = Some (fst r)"
  proof (cases "getDepositByPaymentId (uuid w) kv")
    case None
    with addPendingDeposit_get[of "webhook_deposit parseFloat w" kv newId t_add] pid
    show ?thesis by (simp add: r_def addPendingDeposit_load)
  next
    case (Some d)
    then show ?thesis by (simp add: r_def)
  qed
  show "cardCreated (fst r) = None" if "getDepositByPaymentId (uuid w) kv = None"
    using that by (simp add: r_def addPendingDeposit_load webhook_deposit_def)
  show "fst r = d" if "getDepositByPaymentId (uuid w) kv = Some d"
    using that by (simp add: r_def)
  show "map paymentId (loadPendingDeposits (snd r)) =
       (if uuid w \<in> set (map paymentId (loadPendingDeposits kv))
        then map paymentId (loadPendingDeposits kv)
        else map paymentId (loadPendingDeposits kv) @ [uuid w])"
  proof (cases "getDepositByPaymentId (uuid w) kv")
    case None
    then have "uuid w \<notin> set (map paymentId (loadPendingDeposits kv))"
      by (simp add: getDepositByPaymentId_None)
    with None pid show ?thesis
      by (simp add: r_def addPendingDeposit_load)
  next
    case (Some d)
    with getDepositByPaymentId_None[of "uuid w" kv] show ?thesis
      by (simp add: r_def)
  qed
qed

lemma mark_paymentIds:
  "map paymentId (loadPendingDeposits (snd (markDepositAsSent pid sig now kv))) =
     map paymentId (loadPendingDeposits kv)"
  "map paymentId (loadPendingDeposits (snd (markDepositAsConfirmed pid now kv))) =
     map paymentId (loadPendingDeposits kv)"
  "map paymentId (loadPendingDeposits (snd (markDepositAsCredited pid created cid now kv))) =
     map paymentId (loadPendingDeposits kv)"
  "map paymentId (loadPendingDeposits (snd (markDepositAsFailed pid err kv))) =
     map paymentId (loadPendingDeposits kv)"
  by (simp_all add: markDepositAsSent_def markDepositAsConfirmed_def markDepositAsCredited_def
      markDepositAsFailed_def updateDepositStatus_paymentIds)

lemma webhook_paymentIds:
  "map paymentId (loadPendingDeposits (snd (kripicard_webhook_POST parseFloat newId t_add t_conf
       t_cred cardCall (Some w) kv))) =
     (if uuid w \<in> set (map paymentId (loadPendingDeposits kv))
      then map paymentId (loadPendingDeposits kv)
      else map paymentId (loadPendingDeposits kv) @ [uuid w])"
proof -
  let ?r = "case getDepositByPaymentId (uuid w) kv of
        Some d \<Rightarrow> (d, kv)
      | None \<Rightarrow> addPendingDeposit newId t_add (webhook_deposit parseFloat w) kv"
  obtain deposit kv1 where look: "?r = (deposit, kv1)"
    by (cases ?r)
  have "map paymentId (loadPendingDeposits (snd (kripicard_webhook_POST parseFloat newId t_add
       t_conf t_cred cardCall (Some w) kv))) = map paymentId (loadPendingDeposits kv1)"
    unfolding kripicard_webhook_POST_def
    by (simp add: look Let_def mark_paymentIds split: card_call.split)
  with webhook_lookup(4)[where w=w and kv=kv and newId=newId and t_add=t_add and parseFloat=parseFloat] look show ?thesis
    by simp
qed


section \<open>Lemmas about the webhook receivers\<close>

lemma kripicard_webhook_ignores_sign:
  "kripicard_webhook_POST parseFloat newId t_add t_conf t_cred cardCall (Some (w\<lparr>sign := s\<rparr>)) kv =
   kripicard_webhook_POST parseFloat newId t_add t_conf t_cred cardCall (Some w) kv"
proof -
  have "webhook_deposit parseFloat (w\<lparr>sign := s\<rparr>) = webhook_deposit parseFloat w"
    by (simp add: webhook_deposit_def)
  moreover have "uuid (w\<lparr>sign := s\<rparr>) = uuid w" "status_p (w\<lparr>sign := s\<rparr>) = status_p w"
    by simp_all
  ultimately show ?thesis
    unfolding kripicard_webhook_POST_def option.case by (simp only:)
qed

lemma deposit_webhook_rejects_bad_signature:
  "\<not> verifyWebhookSignature (body\<lparr>sign := []\<rparr>) (sign body) \<Longrightarrow>
   deposit_webhook_POST verifyWebhookSignature isPaymentSuccessful parseFloat jsonWallet now
     (Some body) kv = (unauthorized, kv)"
  by (simp add: deposit_webhook_POST_def Let_def)

section \<open>Lemmas about the balance and card stores\<close>

lemma falsy_Some [simp]: "falsy (Some s) \<longleftrightarrow> s = []" and falsy_None [simp]: "falsy None"
  by (simp_all add: falsy_def)




lemma getBalance_upd [simp]: "getBalance t wallet (kv(wallet \<mapsto> b)) = b"
  by (simp add: getBalance_def)

lemma cards_POST_valid:
  assumes "cid \<noteq> []" and "wallet \<noteq> []"
    and "rq_cardId body = Some cid" and "rq_walletAddress body = Some wallet"
  shows "cards_POST newId now (Some body) kv =
     (\<lparr>http_status = 200, success = True, message = Some ''Card stored successfully''\<rparr>,
      kv(wallet \<mapsto>
        (case findIndex (\<lambda>c. cardId_c c = cid) (getCards wallet kv) of
           Some existingIndex \<Rightarrow>
             (getCards wallet kv)[existingIndex :=
               (getCards wallet kv ! existingIndex)
                 \<lparr>lastFour := rq_lastFour body, balance_c := rq_balance body,
                  cardNumber := rq_cardNumber body, cvv := rq_cvv body,
                  expiry := rq_expiry body, cardHolder := rq_cardHolder body\<rparr>]
         | None \<Rightarrow>
             getCards wallet kv @
               [\<lparr>id_c = newId, cardId_c = cid, walletAddress_c = wallet,
                 createdAt_c = now, lastFour = rq_lastFour body, status_c = Active,
                 balance_c = rq_balance body, cardNumber = rq_cardNumber body,
                 cvv = rq_cvv body, expiry = rq_expiry body,
                 cardHolder = rq_cardHolder body\<rparr>])))"
  using assms by (simp add: cards_POST_def saveCards_def json_ok_def Let_def)

lemma getCards_upd [simp]: "getCards wallet (kv(wallet \<mapsto> cards)) = cards"
  by (simp add: getCards_def)

section \<open>The claims\<close>

text \<open>
  C9. The expiry sweep sets to \<open>expired\<close> exactly the records in status \<open>pending\<close>
  or \<open>sent\<close> whose \<open>createdAt\<close> lies more than 7 days (604800000 ms) before the
  current time, changes no other field of them and no other record, and returns how many
  it expired.
\<close>

theorem cleanupExpiredDeposits_sweep:
  "loadPendingDeposits (snd (cleanupExpiredDeposits now kv)) =
     map (\<lambda>d. if (status d = Pending \<or> status d = Sent) \<and> now - createdAt d > 604800000
               then d\<lparr>status := Expired\<rparr> else d) (loadPendingDeposits kv)
   \<and> fst (cleanupExpiredDeposits now kv) =
       length (filter (\<lambda>d. (status d = Pending \<or> status d = Sent)
                             \<and> now - createdAt d > 604800000) (loadPendingDeposits kv))"
proof -
  let ?stale = "\<lambda>d. (status d = Pending \<or> status d = Sent) \<and> now - createdAt d > 604800000"
  let ?ds = "loadPendingDeposits kv"
  have none: "map (\<lambda>d. if ?stale d then d\<lparr>status := Expired\<rparr> else d) ?ds = ?ds"
    if "filter ?stale ?ds = []"
  proof -
    from that have "\<forall>d\<in>set ?ds. \<not> ?stale d"
      by (simp add: filter_empty_conv)
    then show ?thesis
      by (intro map_idI) auto
  qed
  show ?thesis
    using none
    by (auto simp: cleanupExpiredDeposits_def expire_loop_eq savePendingDeposits_def
        loadPendingDeposits_def split: option.splits)
qed

theorem cleanupExpiredDeposits_sweep_witness:
  "cleanupExpiredDeposits 691200000
     (Some [sample_deposit ''a'' Pending 0, sample_deposit ''b'' Pending 172800000,
            sample_deposit ''c'' Confirmed 0]) =
   (1, Some [(sample_deposit ''a'' Pending 0)\<lparr>status := Expired\<rparr>,
             sample_deposit ''b'' Pending 172800000, sample_deposit ''c'' Confirmed 0])"
  using cleanupExpiredDeposits_sweep [of 691200000
     "Some [sample_deposit ''a'' Pending 0, sample_deposit ''b'' Pending 172800000,
            sample_deposit ''c'' Confirmed 0]"]
  by (simp add: cleanupExpiredDeposits_def loadPendingDeposits_def savePendingDeposits_def
      sample_deposit_def SEVEN_DAYS_def)



text \<open>
  C2, as the code has it. \<open>updateDepositStatus\<close> and the \<open>markDepositAs*\<close> helpers
  set the status of the first record carrying the \<open>paymentId\<close> to the requested status
  whatever its current status is, and leave the status of every other record; only
  \<open>cleanupExpiredDeposits\<close> is guarded: it moves \<open>pending\<close> and \<open>sent\<close> records
  older than 7 days to \<open>expired\<close> and leaves every other status.
\<close>

theorem status_overwritten_unconditionally:
  "map status (loadPendingDeposits (snd (updateDepositStatus pid st extra kv))) =
     (case findIndex (\<lambda>d. paymentId d = pid) (loadPendingDeposits kv) of
        None \<Rightarrow> map status (loadPendingDeposits kv)
      | Some i \<Rightarrow> (map status (loadPendingDeposits kv))[i := st])
   \<and> map status (loadPendingDeposits (snd (markDepositAsSent pid sig now kv))) =
     (case findIndex (\<lambda>d. paymentId d = pid) (loadPendingDeposits kv) of
        None \<Rightarrow> map status (loadPendingDeposits kv)
      | Some i \<Rightarrow> (map status (loadPendingDeposits kv))[i := Sent])
   \<and> map status (loadPendingDeposits (snd (markDepositAsConfirmed pid now kv))) =
     (case findIndex (\<lambda>d. paymentId d = pid) (loadPendingDeposits kv) of
        None \<Rightarrow> map status (loadPendingDeposits kv)
      | Some i \<Rightarrow> (map status (loadPendingDeposits kv))[i := Confirmed])
   \<and> map status (loadPendingDeposits (snd (markDepositAsCredited pid created cid now kv))) =
     (case findIndex (\<lambda>d. paymentId d = pid) (loadPendingDeposits kv) of
        None \<Rightarrow> map status (loadPendingDeposits kv)
      | Some i \<Rightarrow> (map status (loadPendingDeposits kv))[i := Credited])
   \<and> map status (loadPendingDeposits (snd (markDepositAsFailed pid err kv))) =
     (case findIndex (\<lambda>d. paymentId d = pid) (loadPendingDeposits kv) of
        None \<Rightarrow> map status (loadPendingDeposits kv)
      | Some i \<Rightarrow> (map status (loadPendingDeposits kv))[i := Failed])
   \<and> map status (loadPendingDeposits (snd (cleanupExpiredDeposits now kv))) =
     map (\<lambda>d. if (status d = Pending \<or> status d = Sent) \<and> now - createdAt d > 604800000
               then Expired else status d) (loadPendingDeposits kv)"
  by (simp only: updateDepositStatus_statuses cleanupExpiredDeposits_statuses
      markDepositAsSent_def markDepositAsConfirmed_def markDepositAsCredited_def
      markDepositAsFailed_def simp_thms)

theorem status_overwritten_unconditionally_witness:
  "map status (loadPendingDeposits (snd (markDepositAsFailed ''p1'' ''late''
      (Some [sample_deposit ''p0'' Sent 0, sample_deposit ''p1'' Credited 0])))) =
   [Sent, Failed]"
  using status_overwritten_unconditionally [of "''p1''" Failed "[]"
      "Some [sample_deposit ''p0'' Sent 0, sample_deposit ''p1'' Credited 0]" "''s''" 0 True None
      "''late''"]
  by (simp add: loadPendingDeposits_def sample_deposit_def)

theorem status_backwards_counterexample:
  "map status (loadPendingDeposits (snd (markDepositAsConfirmed ''p1'' 5
      (Some [sample_deposit ''p1'' Credited 0])))) = [Confirmed]
   \<and> map status (loadPendingDeposits (snd (updateDepositStatus ''p1'' Pending []
      (Some [sample_deposit ''p1'' Confirmed 0])))) = [Pending]
   \<and> map status (loadPendingDeposits (snd (markDepositAsSent ''p1'' ''sig'' 5
      (Some [sample_deposit ''p1'' Expired 0])))) = [Sent]"
  by (simp add: markDepositAsConfirmed_def markDepositAsSent_def updateDepositStatus_def
      loadPendingDeposits_def savePendingDeposits_def sample_deposit_def spread_def Let_def)

text \<open>
  C4, as the code has it. \<open>addPendingDeposit\<close> appends without looking at the ledger, so
  it keeps the \<open>paymentId\<close>s distinct exactly when the new one does not occur yet. The
  webhook \<open>POST\<close> handler looks the \<open>paymentId\<close> up before it adds and keeps them
  distinct, and so do the \<open>markDepositAs*\<close> helpers and every \<open>updateDepositStatus\<close>
  whose additional data does not assign \<open>paymentId\<close>.
\<close>

theorem paymentId_unique_preserved:
  assumes "distinct (map paymentId (loadPendingDeposits kv))"
  shows "distinct (map paymentId (loadPendingDeposits (snd (kripicard_webhook_POST parseFloat
           newId t_add t_conf t_cred cardCall request kv))))
       \<and> distinct (map paymentId (loadPendingDeposits (snd (markDepositAsSent pid sig now kv))))
       \<and> distinct (map paymentId (loadPendingDeposits (snd (markDepositAsConfirmed pid now kv))))
       \<and> distinct (map paymentId
            (loadPendingDeposits (snd (markDepositAsCredited pid created cid now kv))))
       \<and> distinct (map paymentId (loadPendingDeposits (snd (markDepositAsFailed pid err kv))))
       \<and> ((\<forall>v. F_paymentId v \<notin> set extra) \<longrightarrow>
            distinct (map paymentId
              (loadPendingDeposits (snd (updateDepositStatus pid st extra kv)))))
       \<and> (distinct (map paymentId
              (loadPendingDeposits (snd (addPendingDeposit newId now deposit kv))))
            \<longleftrightarrow> paymentId deposit \<notin> set (map paymentId (loadPendingDeposits kv)))"
proof -
  have "distinct (map paymentId (loadPendingDeposits (snd (kripicard_webhook_POST parseFloat
           newId t_add t_conf t_cred cardCall request kv))))"
  proof (cases request)
    case None
    with assms show ?thesis by (simp add: kripicard_webhook_POST_def)
  next
    case (Some w)
    with assms show ?thesis by (simp add: webhook_paymentIds)
  qed
  moreover have "distinct (map paymentId
              (loadPendingDeposits (snd (addPendingDeposit newId now deposit kv))))
            \<longleftrightarrow> paymentId deposit \<notin> set (map paymentId (loadPendingDeposits kv))"
    using assms by (auto simp: addPendingDeposit_load)
  ultimately show ?thesis
    using assms by (simp add: mark_paymentIds updateDepositStatus_paymentIds)
qed

theorem paymentId_unique_preserved_witness:
  "map paymentId (loadPendingDeposits (snd (kripicard_webhook_POST (\<lambda>s. None) ''id-2'' 1 2 3
      Call_threw (Some (sample_webhook ''p1'' ''paid'' ''sg''))
      (Some [sample_deposit ''p0'' Pending 0, sample_deposit ''p1'' Pending 0])))) = [''p0'', ''p1'']
   \<and> distinct (map paymentId (loadPendingDeposits (snd (addPendingDeposit ''id-2'' 5
        (sample_deposit ''p2'' Pending 0)
        (Some [sample_deposit ''p0'' Pending 0, sample_deposit ''p1'' Pending 0])))))"
  using paymentId_unique_preserved [of
      "Some [sample_deposit ''p0'' Pending 0, sample_deposit ''p1'' Pending 0]"
      "\<lambda>s. None" "''id-2''" 1 2 3 Call_threw "Some (sample_webhook ''p1'' ''paid'' ''sg'')"
      "''p1''" "''s''" 5 True None "''e''" "[]" Sent "sample_deposit ''p2'' Pending 0"]
    webhook_paymentIds [of "\<lambda>s. None" "''id-2''" 1 2 3 Call_threw
      "sample_webhook ''p1'' ''paid'' ''sg''"
      "Some [sample_deposit ''p0'' Pending 0, sample_deposit ''p1'' Pending 0]"]
  by (simp add: sample_deposit_def sample_webhook_def)

theorem addPendingDeposit_duplicate_counterexample:
  "map paymentId (loadPendingDeposits (snd (addPendingDeposit ''id-2'' 5
      (sample_deposit ''p1'' Pending 0) (Some [sample_deposit ''p1'' Pending 0])))) =
   [''p1'', ''p1'']"
  by (simp add: addPendingDeposit_load sample_deposit_def)




text \<open>
  C1. A payload with an invalid signature must be answered with 401 and leave the stores
  as they are. The payment webhook does so (\<open>deposit_webhook_rejects_bad_signature\<close>);
  the card-provider webhook never looks at \<open>sign\<close>
  (\<open>kripicard_webhook_ignores_sign\<close>), so a forged payload is answered with 200 and
  written to the ledger, as evaluated here.
\<close>

theorem kripicard_webhook_unverified:
  "kripicard_webhook_POST (\<lambda>s. if s = ''100'' then Some 100 else None) ''id-1'' 1 2 3
     (Call_result True (Some ''card-1'')) (Some (sample_webhook ''p1'' ''paid'' ''forged'')) None =
   (\<lparr>http_status = 200, success = True, message = Some ''Webhook processed''\<rparr>,
    Some [\<lparr>id_d = ''id-1'', paymentId = ''p1'', walletAddress = None, amountUsd = 100,
           amountCrypto = Some ''0.5 SOL'', currency = ''SOL'', depositAddress = None,
           cryptomusUrl = None, transactionSignature = None, status = Credited, createdAt = 1,
           sentAt = None, confirmedAt = Some 2, creditedAt = Some 3, cardCreated = Some True,
           cardId = Some ''card-1'', error = None\<rparr>])"
  by (simp add: kripicard_webhook_POST_def sample_webhook_def webhook_deposit_def
      getDepositByPaymentId_def addPendingDeposit_def markDepositAsConfirmed_def
      markDepositAsCredited_def updateDepositStatus_def savePendingDeposits_def spread_def Let_def)

text \<open>
  C5. A debit whose amount exceeds the wallet's current balance is answered with 400,
  \<open>success = false\<close> and the message \<open>Insufficient balance\<close>, and the store, and
  with it the wallet's record, stays as it was.
\<close>

theorem debit_insufficient_balance:
  assumes "wallet \<noteq> []" and "balance (getBalance now wallet kv) < amt"
  shows "balance_POST now (balance_request wallet ''debit'' amt) kv =
           ((\<lparr>http_status = 400, success = False, message = Some ''Insufficient balance''\<rparr>, None),
            kv)"
  using assms by (simp add: balance_POST_def balance_request_def bad_request_def Let_def)

theorem debit_insufficient_balance_witness:
  "balance_POST 9 (balance_request ''w1'' ''debit'' 25)
     [''w1'' \<mapsto> \<lparr>balance = 10, totalDeposited = 30, totalSpent = 20, lastUpdated = 4\<rparr>] =
   ((\<lparr>http_status = 400, success = False, message = Some ''Insufficient balance''\<rparr>, None),
    [''w1'' \<mapsto> \<lparr>balance = 10, totalDeposited = 30, totalSpent = 20, lastUpdated = 4\<rparr>])"
  using debit_insufficient_balance [where wallet = "''w1''" and now = 9 and amt = 25 and kv =
      "[''w1'' \<mapsto> \<lparr>balance = 10, totalDeposited = 30, totalSpent = 20, lastUpdated = 4\<rparr>]"]
  by (simp add: getBalance_def)






text \<open>
  C8, as the code has it. With a \<open>cardId\<close> already in the wallet's list, \<open>POST\<close>
  replaces the six optional fields of the first record carrying it by the request's (a
  field the request does not supply becomes unset) and keeps \<open>id\<close>, \<open>cardId\<close>,
  \<open>walletAddress\<close>, \<open>createdAt\<close> and \<open>status\<close>; with a \<open>cardId\<close> not in the list
  it appends one record with the generated id and status \<open>active\<close>. Every other record
  and every other wallet's list is left as it is.
\<close>

theorem cards_POST_upsert:
  assumes "cid \<noteq> []" and "wallet \<noteq> []"
    and "rq_cardId body = Some cid" and "rq_walletAddress body = Some wallet"
  shows "fst (cards_POST newId now (Some body) kv) =
           \<lparr>http_status = 200, success = True, message = Some ''Card stored successfully''\<rparr>
       \<and> (other \<noteq> wallet \<longrightarrow> snd (cards_POST newId now (Some body) kv) other = kv other)
       \<and> (findIndex (\<lambda>c. cardId_c c = cid) (getCards wallet kv) = Some i \<longrightarrow>
            getCards wallet (snd (cards_POST newId now (Some body) kv)) =
              (getCards wallet kv)[i :=
                \<lparr>id_c = id_c (getCards wallet kv ! i), cardId_c = cid,
                 walletAddress_c = walletAddress_c (getCards wallet kv ! i),
                 createdAt_c = createdAt_c (getCards wallet kv ! i),
                 lastFour = rq_lastFour body,
                 status_c = status_c (getCards wallet kv ! i),
                 balance_c = rq_balance body, cardNumber = rq_cardNumber body,
                 cvv = rq_cvv body, expiry = rq_expiry body,
                 cardHolder = rq_cardHolder body\<rparr>])
       \<and> (findIndex (\<lambda>c. cardId_c c = cid) (getCards wallet kv) = None \<longrightarrow>
            getCards wallet (snd (cards_POST newId now (Some body) kv)) =
              getCards wallet kv @
                [\<lparr>id_c = newId, cardId_c = cid, walletAddress_c = wallet,
                  createdAt_c = now, lastFour = rq_lastFour body, status_c = Active,
                  balance_c = rq_balance body, cardNumber = rq_cardNumber body,
                  cvv = rq_cvv body, expiry = rq_expiry body,
                  cardHolder = rq_cardHolder body\<rparr>])"
proof -
  have "(getCards wallet kv ! i)
          \<lparr>lastFour := rq_lastFour body, balance_c := rq_balance body,
           cardNumber := rq_cardNumber body, cvv := rq_cvv body,
           expiry := rq_expiry body, cardHolder := rq_cardHolder body\<rparr> =
        \<lparr>id_c = id_c (getCards wallet kv ! i), cardId_c = cid,
         walletAddress_c = walletAddress_c (getCards wallet kv ! i),
         createdAt_c = createdAt_c (getCards wallet kv ! i),
         lastFour = rq_lastFour body,
         status_c = status_c (getCards wallet kv ! i),
         balance_c = rq_balance body, cardNumber = rq_cardNumber body,
         cvv = rq_cvv body, expiry = rq_expiry body,
         cardHolder = rq_cardHolder body\<rparr>"
    if "findIndex (\<lambda>c. cardId_c c = cid) (getCards wallet kv) = Some i"
    using findIndex_Some[OF that] by simp
  then show ?thesis
    by (simp add: cards_POST_valid[OF assms])
qed

theorem cards_POST_upsert_witness:
  "getCards ''w1'' (snd (cards_POST ''id-9'' 5 (Some (balance_only_request ''c1'' 55))
      [''w1'' \<mapsto> [sample_card ''c0'', sample_card ''c1'']])) =
   [sample_card ''c0'',
    \<lparr>id_c = ''id-c1'', cardId_c = ''c1'', walletAddress_c = ''w1'', createdAt_c = 0,
     lastFour = None, status_c = Frozen, balance_c = Some 55, cardNumber = None, cvv = None,
     expiry = None, cardHolder = None\<rparr>]
   \<and> getCards ''w1'' (snd (cards_POST ''id-9'' 5 (Some (balance_only_request ''c2'' 55))
      [''w1'' \<mapsto> [sample_card ''c0'', sample_card ''c1'']])) =
   [sample_card ''c0'', sample_card ''c1'',
    \<lparr>id_c = ''id-9'', cardId_c = ''c2'', walletAddress_c = ''w1'', createdAt_c = 5,
     lastFour = None, status_c = Active, balance_c = Some 55, cardNumber = None, cvv = None,
     expiry = None, cardHolder = None\<rparr>]"
proof -
  have req: "rq_cardId (balance_only_request ''c1'' 55) = Some ''c1''"
    "rq_walletAddress (balance_only_request ''c1'' 55) = Some ''w1''"
    "rq_cardId (balance_only_request ''c2'' 55) = Some ''c2''"
    "rq_walletAddress (balance_only_request ''c2'' 55) = Some ''w1''"
    by (simp_all add: balance_only_request_def)
  have ne: "''c1'' \<noteq> []" "''c2'' \<noteq> []" "''w1'' \<noteq> []"
    by simp_all
  show ?thesis
    using cards_POST_upsert [OF ne(1) ne(3) req(1) req(2), where newId = "''id-9''" and now = 5
        and kv = "[''w1'' \<mapsto> [sample_card ''c0'', sample_card ''c1'']]" and i = 1]
      cards_POST_upsert [OF ne(2) ne(3) req(3) req(4), where newId = "''id-9''" and now = 5
        and kv = "[''w1'' \<mapsto> [sample_card ''c0'', sample_card ''c1'']]"]
    by (simp add: sample_card_def balance_only_request_def)
qed

theorem cards_POST_unsupplied_fields_counterexample:
  "map lastFour (getCards ''w1'' [''w1'' \<mapsto> [sample_card ''c1'']]) = [Some ''4242'']
   \<and> map lastFour (getCards ''w1'' (snd (cards_POST ''id-9'' 5
        (Some (balance_only_request ''c1'' 55)) [''w1'' \<mapsto> [sample_card ''c1'']]))) = [None]"
  by (simp add: cards_POST_def saveCards_def getCards_def sample_card_def
      balance_only_request_def Let_def)

end
